theory Spec2Isabelle
  imports Complex_Main "HOL-Library.Sublist"
begin

section \<open>Python text and values\<close>

text \<open>
  A Python \<^verbatim>\<open>str\<close> is a sequence of Unicode code points. It is modelled as a list of
  natural numbers, one per code point, so that the symbols the command line prints and
  every white-space character \<^verbatim>\<open>str.strip\<close> removes are in the model.
  \<open>lit\<close> turns an ASCII literal of the source into such a list.
\<close>

type_synonym pystr = "nat list"

definition lit :: "string \<Rightarrow> pystr" where
  "lit s = map of_char s"

text \<open>
  \<^verbatim>\<open>str.isspace\<close> for one code point: the code points CPython's
  \<^verbatim>\<open>Py_UNICODE_ISSPACE\<close> accepts. \<^verbatim>\<open>str.strip()\<close> without an argument removes
  exactly these from both ends.
\<close>

definition isspace :: "nat \<Rightarrow> bool" where
  "isspace c =
     ((0x09 \<le> c \<and> c \<le> 0x0D) \<or> (0x1C \<le> c \<and> c \<le> 0x20) \<or> c = 0x85 \<or> c = 0xA0
      \<or> c = 0x1680 \<or> (0x2000 \<le> c \<and> c \<le> 0x200A) \<or> c = 0x2028 \<or> c = 0x2029
      \<or> c = 0x202F \<or> c = 0x205F \<or> c = 0x3000)"

definition lstrip :: "pystr \<Rightarrow> pystr" where
  "lstrip s = dropWhile isspace s"

definition rstrip :: "pystr \<Rightarrow> pystr" where
  "rstrip s = rev (dropWhile isspace (rev s))"

definition strip :: "pystr \<Rightarrow> pystr" where
  "strip s = rstrip (lstrip s)"

text \<open>\<^verbatim>\<open>base_url.rstrip("/")\<close>: every trailing slash goes.\<close>

definition rstrip_slash :: "pystr \<Rightarrow> pystr" where
  "rstrip_slash s = rev (dropWhile (\<lambda>c. c = 0x2F) (rev s))"

text \<open>
  \<^verbatim>\<open>str.lower\<close>, one code point at a time. The table is Python's for the code points
  below U+0100 and for the two code points beyond that range whose lower case is an
  ASCII letter or starts with one (U+0130, U+212A); every other code point is kept.
  The only use the program makes of \<open>lower\<close> is the comparison with the ASCII exit
  keywords, and no code point left out of the table lower-cases into ASCII.
\<close>

definition lower_cp :: "nat \<Rightarrow> pystr" where
  "lower_cp c =
     (if 0x41 \<le> c \<and> c \<le> 0x5A then [c + 32]
      else if 0xC0 \<le> c \<and> c \<le> 0xDE \<and> c \<noteq> 0xD7 then [c + 32]
      else if c = 0x130 then [0x69, 0x307]
      else if c = 0x212A then [0x6B]
      else [c])"

definition lower :: "pystr \<Rightarrow> pystr" where
  "lower s = concat (map lower_cp s)"

text \<open>\<^verbatim>\<open>str(n)\<close> for an integer: its decimal digits, with a minus sign when negative.\<close>

fun digits :: "nat \<Rightarrow> pystr" where
  "digits n = (if n < 10 then [48 + n] else digits (n div 10) @ [48 + n mod 10])"

declare digits.simps [simp del]

definition str_int :: "int \<Rightarrow> pystr" where
  "str_int i = (if i < 0 then 0x2D # digits (nat (- i)) else digits (nat i))"

text \<open>
  The values \<^verbatim>\<open>json.loads\<close> produces, which are also the values the client stores
  in its results without checking their types. A float is modelled by the real number
  it denotes (the not-a-number and infinite values that Python's parser also accepts
  are outside the model); a \<^verbatim>\<open>dict\<close> is an association list in insertion order,
  read from the front.
\<close>

datatype pyval =
    PNone
  | PBool bool
  | PInt int
  | PFloat real
  | PStr pystr
  | PList "pyval list"
  | PDict "(pystr \<times> pyval) list"

text \<open>
  Text of a value inside an f-string, and \<^verbatim>\<open>str(v)\<close>. A string is inserted as it is;
  \<open>None\<close>, booleans and integers have fixed texts. The text Python gives a float, a
  list or a dict (the shortest round-trip decimal, the \<^verbatim>\<open>repr\<close> of the elements) is
  not defined by this repository: it is the parameter \<open>py_str\<close> of every operation
  that formats such a value.
\<close>

definition format_val :: "(pyval \<Rightarrow> pystr) \<Rightarrow> pyval \<Rightarrow> pystr" where
  "format_val py_str v =
     (case v of
        PStr s \<Rightarrow> s
      | PNone \<Rightarrow> lit ''None''
      | PBool b \<Rightarrow> (if b then lit ''True'' else lit ''False'')
      | PInt i \<Rightarrow> str_int i
      | _ \<Rightarrow> py_str v)"

text \<open>Truth value of \<^verbatim>\<open>if v:\<close>.\<close>

definition truthy :: "pyval \<Rightarrow> bool" where
  "truthy v =
     (case v of
        PNone \<Rightarrow> False
      | PBool b \<Rightarrow> b
      | PInt i \<Rightarrow> i \<noteq> 0
      | PFloat x \<Rightarrow> x \<noteq> 0
      | PStr s \<Rightarrow> s \<noteq> []
      | PList xs \<Rightarrow> xs \<noteq> []
      | PDict kvs \<Rightarrow> kvs \<noteq> [])"

section \<open>Exceptions\<close>

text \<open>
  The exception classes the program names or can meet: those of the HTTP library
  (\<open>ConnectError\<close>, \<open>TimeoutException\<close> and its four subclasses), Python's own, and
  the three the client declares. \<open>OtherException\<close> stands for any other subclass of
  \<^verbatim>\<open>Exception\<close>. An exception value is its class together with its text
  \<^verbatim>\<open>str(e)\<close>; the cause attached by \<^verbatim>\<open>raise ... from e\<close> is read nowhere in the
  program and is not modelled.
\<close>

datatype exc_class =
    ConnectError
  | TimeoutException
  | ConnectTimeout
  | ReadTimeout
  | WriteTimeout
  | PoolTimeout
  | ValueError
  | JSONDecodeError
  | UnicodeDecodeError
  | KeyError
  | TypeError
  | AttributeError
  | RuntimeError
  | EOFError
  | OtherException
  | APIClientError
  | ServerNotReachableError
  | ServerError

datatype py_exception = Exc (exc_cls: exc_class) (exc_str: pystr)

text \<open>The proper base classes of a class among the classes above.\<close>

definition bases :: "exc_class \<Rightarrow> exc_class list" where
  "bases c =
     (case c of
        ConnectTimeout \<Rightarrow> [TimeoutException]
      | ReadTimeout \<Rightarrow> [TimeoutException]
      | WriteTimeout \<Rightarrow> [TimeoutException]
      | PoolTimeout \<Rightarrow> [TimeoutException]
      | JSONDecodeError \<Rightarrow> [ValueError]
      | UnicodeDecodeError \<Rightarrow> [ValueError]
      | ServerNotReachableError \<Rightarrow> [APIClientError]
      | ServerError \<Rightarrow> [APIClientError]
      | _ \<Rightarrow> [])"

text \<open>\<^verbatim>\<open>except K as e\<close> catches \<open>e\<close> when \<open>isinstance e K\<close>.\<close>

definition isinstance :: "py_exception \<Rightarrow> exc_class \<Rightarrow> bool" where
  "isinstance e k = (exc_cls e = k \<or> k \<in> set (bases (exc_cls e)))"

section \<open>The HTTP library as the client uses it\<close>

datatype http_method = GET | POST

record request =
  http_method :: http_method
  url :: pystr
  json_payload :: "pyval option"

text \<open>
  A response is what the client reads of it: the status code, the body text, and what
  \<^verbatim>\<open>response.json()\<close> does, which is to return the parsed value or to raise (class
  and text of the exception; the library raises \<^verbatim>\<open>json.JSONDecodeError\<close>, a subclass
  of \<^verbatim>\<open>ValueError\<close>, on a body that is not JSON).
\<close>

record response =
  status_code :: int
  response_text :: pystr
  json_body :: "py_exception + pyval"

text \<open>
  The \<^verbatim>\<open>httpx.Client\<close> the API client owns: the requests it has issued, and how
  often \<^verbatim>\<open>close()\<close> was called on it.
\<close>

record httpx_client =
  sent :: "request list"
  close_calls :: nat

text \<open>
  The network is the environment: \<open>net k req\<close> is what the \<open>k\<close>-th request of the
  session meets, a response or the exception the library raises (connection refused,
  timeout, ...). A closed client refuses to send, as the library does.
\<close>

type_synonym network = "nat \<Rightarrow> request \<Rightarrow> py_exception + response"

definition send :: "network \<Rightarrow> httpx_client \<Rightarrow> request \<Rightarrow> (py_exception + response) \<times> httpx_client" where
  "send net hc req =
     (if 0 < close_calls hc
      then (Inl (Exc RuntimeError (lit ''Cannot send a request, as the client has been closed.'')), hc)
      else (net (length (sent hc)) req, hc\<lparr>sent := sent hc @ [req]\<rparr>))"

text \<open>
  \<^verbatim>\<open>response.raise_for_status()\<close> raises \<^verbatim>\<open>httpx.HTTPStatusError\<close>, which carries
  the response, unless the status is a success (2xx).
\<close>

definition is_success :: "response \<Rightarrow> bool" where
  "is_success r = (200 \<le> status_code r \<and> status_code r \<le> 299)"

text \<open>
  What a \<^verbatim>\<open>try\<close> body does: it returns, it raises an exception, or it raises the
  \<^verbatim>\<open>HTTPStatusError\<close> of \<open>raise_for_status\<close> (whose own text the program never reads).
\<close>

datatype 'a attempt = Returned 'a | Raised py_exception | StatusError response

section \<open>Operations on parsed values\<close>

definition type_name :: "pyval \<Rightarrow> pystr" where
  "type_name v =
     (case v of
        PNone \<Rightarrow> lit ''NoneType''
      | PBool _ \<Rightarrow> lit ''bool''
      | PInt _ \<Rightarrow> lit ''int''
      | PFloat _ \<Rightarrow> lit ''float''
      | PStr _ \<Rightarrow> lit ''str''
      | PList _ \<Rightarrow> lit ''list''
      | PDict _ \<Rightarrow> lit ''dict'')"

definition quoted :: "pystr \<Rightarrow> pystr" where
  "quoted s = [0x27] @ s @ [0x27]"

text \<open>
  \<^verbatim>\<open>v[key]\<close> with a string key: a dict gives the value or \<^verbatim>\<open>KeyError\<close> (whose text
  is the key in quotes: the keys are plain literals of the source); anything else
  raises \<^verbatim>\<open>TypeError\<close>.
\<close>

definition subscript :: "pyval \<Rightarrow> pystr \<Rightarrow> py_exception + pyval" where
  "subscript v key =
     (case v of
        PDict kvs \<Rightarrow>
          (case map_of kvs key of
             Some x \<Rightarrow> Inr x
           | None \<Rightarrow> Inl (Exc KeyError (quoted key)))
      | PList _ \<Rightarrow> Inl (Exc TypeError (lit ''list indices must be integers or slices, not str''))
      | PStr _ \<Rightarrow> Inl (Exc TypeError (lit ''string indices must be integers, not '' @ quoted (lit ''str'')))
      | _ \<Rightarrow> Inl (Exc TypeError (quoted (type_name v) @ lit '' object is not subscriptable'')))"

text \<open>\<^verbatim>\<open>v.get(key, default)\<close>: only a dict has the method.\<close>

definition py_get :: "pyval \<Rightarrow> pystr \<Rightarrow> pyval \<Rightarrow> py_exception + pyval" where
  "py_get v key dflt =
     (case v of
        PDict kvs \<Rightarrow> (case map_of kvs key of Some x \<Rightarrow> Inr x | None \<Rightarrow> Inr dflt)
      | _ \<Rightarrow> Inl (Exc AttributeError
                 (quoted (type_name v) @ lit '' object has no attribute '' @ quoted (lit ''get''))))"

text \<open>
  \<^verbatim>\<open>for x in v\<close>: a list gives its elements, a dict its keys, a string its
  characters; nothing else can be iterated.
\<close>

definition py_iter :: "pyval \<Rightarrow> py_exception + pyval list" where
  "py_iter v =
     (case v of
        PList xs \<Rightarrow> Inr xs
      | PDict kvs \<Rightarrow> Inr (map (\<lambda>kv. PStr (fst kv)) kvs)
      | PStr s \<Rightarrow> Inr (map (\<lambda>c. PStr [c]) s)
      | _ \<Rightarrow> Inl (Exc TypeError (quoted (type_name v) @ lit '' object is not iterable'')))"

section \<open>The API client (api\_client.py)\<close>

record api_health =
  status :: pyval
  ollama_accessible :: pyval
  message :: pyval

text \<open>
  One element of \<^verbatim>\<open>APIAnswer.sources\<close>: the dict with exactly the keys
  \<^verbatim>\<open>number\<close>, \<^verbatim>\<open>title\<close> and \<^verbatim>\<open>url\<close> that \<open>ask_question\<close> builds.
\<close>

record source =
  number :: pyval
  title :: pyval
  source_url :: pyval

record api_answer =
  answer :: pyval
  sources :: "source list"
  processing_time :: pyval

record api_client =
  base_url :: pystr
  timeout :: real
  client :: httpx_client

text \<open>
  \<^verbatim>\<open>RAGAPIClient.__init__\<close>; \<open>env_url\<close> is the value of the environment variable
  \<^verbatim>\<open>AISHE_API_URL\<close>, if set.
\<close>

definition init :: "pystr option \<Rightarrow> pystr option \<Rightarrow> real \<Rightarrow> api_client" where
  "init base_url_arg env_url timeout_arg =
     (let b = (case base_url_arg of
                 None \<Rightarrow> (case env_url of None \<Rightarrow> lit ''http://localhost:8000'' | Some v \<Rightarrow> v)
               | Some b \<Rightarrow> b)
      in \<lparr>base_url = rstrip_slash b, timeout = timeout_arg,
          client = \<lparr>sent = [], close_calls = 0\<rparr>\<rparr>)"

text \<open>
  \<^verbatim>\<open>RAGAPIClient.close\<close> closes the HTTP client. The context manager of the class
  returns the client on entry and calls \<open>close\<close> on exit.
\<close>

definition close :: "api_client \<Rightarrow> api_client" where
  "close c = c\<lparr>client := (client c)\<lparr>close_calls := Suc (close_calls (client c))\<rparr>\<rparr>"

text \<open>The body of the \<^verbatim>\<open>try\<close> of \<open>check_health\<close>, after the request was issued.\<close>

definition health_attempt :: "py_exception + response \<Rightarrow> api_health attempt" where
  "health_attempt got =
     (case got of
        Inl e \<Rightarrow> Raised e
      | Inr r \<Rightarrow>
          if \<not> is_success r then StatusError r
          else (case json_body r of
             Inl e \<Rightarrow> Raised e
           | Inr data \<Rightarrow>
               (case subscript data (lit ''status'') of
                  Inl e \<Rightarrow> Raised e
                | Inr st \<Rightarrow>
                    (case subscript data (lit ''ollama_accessible'') of
                       Inl e \<Rightarrow> Raised e
                     | Inr acc \<Rightarrow>
                         (case py_get data (lit ''message'') PNone of
                            Inl e \<Rightarrow> Raised e
                          | Inr msg \<Rightarrow>
                              Returned \<lparr>status = st, ollama_accessible = acc, message = msg\<rparr>)))))"

text \<open>The \<^verbatim>\<open>except\<close> clauses of \<open>check_health\<close>, in the order of the source.\<close>

definition health_handlers :: "api_client \<Rightarrow> api_health attempt \<Rightarrow> py_exception + api_health" where
  "health_handlers c a =
     (case a of
        Returned h \<Rightarrow> Inr h
      | Raised e \<Rightarrow>
          if isinstance e ConnectError then
            Inl (Exc ServerNotReachableError
                   (lit ''Cannot connect to server at '' @ base_url c
                      @ lit ''. Make sure the server is running.''))
          else if isinstance e TimeoutException then
            Inl (Exc ServerNotReachableError
                   (lit ''Request to '' @ base_url c @ lit '' timed out.''))
          else Inl (Exc APIClientError (lit ''Unexpected error: '' @ exc_str e))
      | StatusError r \<Rightarrow>
          Inl (Exc ServerError (lit ''Server returned error: '' @ str_int (status_code r))))"

text \<open>\<^verbatim>\<open>self.client.get(f"{self.base_url}/health")\<close>\<close>

definition health_request :: "api_client \<Rightarrow> request" where
  "health_request c =
     \<lparr>http_method = GET, url = base_url c @ lit ''/health'', json_payload = None\<rparr>"

definition check_health :: "network \<Rightarrow> api_client \<Rightarrow> (py_exception + api_health) \<times> api_client" where
  "check_health net c =
     (let (got, hc) = send net (client c) (health_request c)
      in (health_handlers c (health_attempt got), c\<lparr>client := hc\<rparr>))"

text \<open>The list comprehension of \<open>ask_question\<close>: one source at a time, in order.\<close>

definition convert_source :: "pyval \<Rightarrow> py_exception + source" where
  "convert_source s =
     (case subscript s (lit ''number'') of
        Inl e \<Rightarrow> Inl e
      | Inr n \<Rightarrow>
          (case subscript s (lit ''title'') of
             Inl e \<Rightarrow> Inl e
           | Inr t \<Rightarrow>
               (case subscript s (lit ''url'') of
                  Inl e \<Rightarrow> Inl e
                | Inr u \<Rightarrow> Inr \<lparr>number = n, title = t, source_url = u\<rparr>)))"

fun convert_sources :: "pyval list \<Rightarrow> py_exception + source list" where
  "convert_sources [] = Inr []"
| "convert_sources (s # ss) =
     (case convert_source s of
        Inl e \<Rightarrow> Inl e
      | Inr x \<Rightarrow> (case convert_sources ss of Inl e \<Rightarrow> Inl e | Inr xs \<Rightarrow> Inr (x # xs)))"

text \<open>The body of the \<^verbatim>\<open>try\<close> of \<open>ask_question\<close>, after the request was issued.\<close>

definition ask_attempt :: "py_exception + response \<Rightarrow> api_answer attempt" where
  "ask_attempt got =
     (case got of
        Inl e \<Rightarrow> Raised e
      | Inr r \<Rightarrow>
          if \<not> is_success r then StatusError r
          else (case json_body r of
             Inl e \<Rightarrow> Raised e
           | Inr data \<Rightarrow>
               (case subscript data (lit ''sources'') of
                  Inl e \<Rightarrow> Raised e
                | Inr ss \<Rightarrow>
                    (case py_iter ss of
                       Inl e \<Rightarrow> Raised e
                     | Inr items \<Rightarrow>
                         (case convert_sources items of
                            Inl e \<Rightarrow> Raised e
                          | Inr srcs \<Rightarrow>
                              (case subscript data (lit ''answer'') of
                                 Inl e \<Rightarrow> Raised e
                               | Inr a \<Rightarrow>
                                   (case subscript data (lit ''processing_time'') of
                                      Inl e \<Rightarrow> Raised e
                                    | Inr t \<Rightarrow>
                                        Returned \<lparr>answer = a, sources = srcs,
                                                  processing_time = t\<rparr>)))))))"

text \<open>
  The inner \<^verbatim>\<open>try\<close> of the \<^verbatim>\<open>HTTPStatusError\<close> clause: the \<^verbatim>\<open>detail\<close> of a JSON
  object (or the text of the whole object when it has none); the bare \<^verbatim>\<open>except\<close>
  turns every failure, of \<open>json()\<close> or of \<open>get\<close>, into the body text.
\<close>

definition error_detail :: "(pyval \<Rightarrow> pystr) \<Rightarrow> response \<Rightarrow> pystr" where
  "error_detail py_str r =
     (case json_body r of
        Inl e \<Rightarrow> response_text r
      | Inr error_data \<Rightarrow>
          (case py_get error_data (lit ''detail'') (PStr (format_val py_str error_data)) of
             Inl e \<Rightarrow> response_text r
           | Inr d \<Rightarrow> format_val py_str d))"

text \<open>The \<^verbatim>\<open>except\<close> clauses of \<open>ask_question\<close>, in the order of the source.\<close>

definition ask_handlers :: "(pyval \<Rightarrow> pystr) \<Rightarrow> api_client \<Rightarrow> api_answer attempt \<Rightarrow> py_exception + api_answer" where
  "ask_handlers py_str c a =
     (case a of
        Returned x \<Rightarrow> Inr x
      | Raised e \<Rightarrow>
          if isinstance e ConnectError then
            Inl (Exc ServerNotReachableError
                   (lit ''Cannot connect to server at '' @ base_url c
                      @ lit ''. Make sure the server is running with: nix run .#server''))
          else if isinstance e TimeoutException then
            Inl (Exc ServerNotReachableError
                   (lit ''Request timed out after '' @ format_val py_str (PFloat (timeout c))
                      @ lit '' seconds. The question might be too complex.''))
          else if isinstance e ValueError then Inl e
          else Inl (Exc APIClientError (lit ''Unexpected error: '' @ exc_str e))
      | StatusError r \<Rightarrow>
          Inl (Exc ServerError
                 (lit ''Server error ('' @ str_int (status_code r) @ lit ''): ''
                    @ error_detail py_str r)))"

text \<open>
  \<^verbatim>\<open>self.client.post(f"{self.base_url}/api/v1/ask", json={"question": question.strip()})\<close>
\<close>

definition ask_request :: "api_client \<Rightarrow> pystr \<Rightarrow> request" where
  "ask_request c question =
     \<lparr>http_method = POST, url = base_url c @ lit ''/api/v1/ask'',
      json_payload = Some (PDict [(lit ''question'', PStr (strip question))])\<rparr>"

text \<open>
  \<open>ask_question\<close>: the check of the question stands before the \<^verbatim>\<open>try\<close>, so its
  \<^verbatim>\<open>ValueError\<close> meets none of the \<^verbatim>\<open>except\<close> clauses.
\<close>

definition ask_question :: "(pyval \<Rightarrow> pystr) \<Rightarrow> network \<Rightarrow> api_client \<Rightarrow> pystr \<Rightarrow> (py_exception + api_answer) \<times> api_client" where
  "ask_question py_str net c question =
     (if question = [] \<or> strip question = []
      then (Inl (Exc ValueError (lit ''Question cannot be empty'')), c)
      else
        (let (got, hc) = send net (client c) (ask_request c question)
         in (ask_handlers py_str c (ask_attempt got), c\<lparr>client := hc\<rparr>)))"

section \<open>The command line (cli.py)\<close>

text \<open>
  What one call of \<^verbatim>\<open>input()\<close> meets: a line typed at the prompt, the interrupt
  key, or the end of the input (on which \<open>input\<close> raises \<^verbatim>\<open>EOFError\<close>). The
  interrupt is modelled where the specification places it, at the prompt.
\<close>

datatype console_input = Line pystr | KeyboardInterrupt | EndOfFile

text \<open>
  What the session does, in order: \<open>Print s\<close> is \<^verbatim>\<open>print(s)\<close>, \<open>Prompt s\<close> the
  prompt written by \<^verbatim>\<open>input(s)\<close>, \<open>Traceback e\<close> is \<^verbatim>\<open>traceback.print_exc()\<close>, and
  \<open>Ask q\<close> records that \<open>ask_question\<close> is called with \<open>q\<close>.
\<close>

datatype event = Print pystr | Prompt pystr | Traceback py_exception | Ask pystr

record session =
  api :: api_client
  trace :: "event list"

definition emit :: "session \<Rightarrow> event list \<Rightarrow> session" where
  "emit s evs = s\<lparr>trace := trace s @ evs\<rparr>"

text \<open>
  How a run ends: the process exits with a code, or the inputs given to the model are
  used up and the session waits at the prompt.
\<close>

datatype exit_status = Exit int | AwaitingInput

definition print_banner :: "event list" where
  "print_banner =
     [Print (replicate 70 0x3D),
      Print (lit ''Wikipedia RAG Question Answering System''),
      Print (replicate 70 0x3D),
      Print (lit ''Ask questions and get answers based on Wikipedia articles.''),
      Print (lit ''Type '' @ quoted (lit ''quit'') @ lit '' or '' @ quoted (lit ''exit'')
               @ lit '' to stop.''),
      Print (replicate 70 0x3D),
      Print []]"

text \<open>The rule is seventy times U+2500.\<close>

definition rule70 :: pystr where
  "rule70 = replicate 70 0x2500"

definition print_source :: "(pyval \<Rightarrow> pystr) \<Rightarrow> source \<Rightarrow> event list" where
  "print_source py_str src =
     [Print ([0x5B] @ format_val py_str (number src) @ lit ''] '' @ format_val py_str (title src)),
      Print (lit ''    '' @ format_val py_str (source_url src))]"

definition print_result :: "(pyval \<Rightarrow> pystr) \<Rightarrow> api_answer \<Rightarrow> event list" where
  "print_result py_str result =
     [Print (0x0A # rule70), Print (lit ''ANSWER:''), Print rule70,
      Print (format_val py_str (answer result))]
     @ (if sources result \<noteq> []
        then [Print (0x0A # rule70), Print (lit ''SOURCES:''), Print rule70]
             @ concat (map (print_source py_str) (sources result))
        else [])
     @ [Print rule70]"

text \<open>
  The \<^verbatim>\<open>except\<close> clauses of the loop for an exception of \<open>ask_question\<close>, in the
  order of the source. U+274C is the cross mark, U+26A0 the warning sign and U+2713
  the check mark.
\<close>

definition loop_handlers :: "py_exception \<Rightarrow> event list" where
  "loop_handlers e =
     (if isinstance e ServerNotReachableError then
        [Print ([0x0A, 0x274C] @ lit '' Server Error: '' @ exc_str e),
         Print (0x0A # lit ''The server may have stopped. Please restart it:''),
         Print (lit ''  nix run .#server'')]
      else if isinstance e ServerError then
        [Print ([0x0A, 0x274C] @ lit '' Server Error: '' @ exc_str e)]
      else if isinstance e APIClientError then
        [Print ([0x0A, 0x274C] @ lit '' Error: '' @ exc_str e)]
      else
        [Print (0x0A # lit ''Unexpected error: '' @ exc_str e), Traceback e])"

definition exit_keywords :: "pystr list" where
  "exit_keywords = [lit ''quit'', lit ''exit'', lit ''q'']"

datatype loop_control = Break | Continue

text \<open>One pass through the body of \<^verbatim>\<open>while True\<close>, on what \<open>input\<close> meets.\<close>

definition loop_body :: "(pyval \<Rightarrow> pystr) \<Rightarrow> network \<Rightarrow> console_input \<Rightarrow> session \<Rightarrow> loop_control \<times> session" where
  "loop_body py_str net inp s =
     (let s1 = emit s [Prompt (0x0A # lit ''Your question: '')] in
      case inp of
        KeyboardInterrupt \<Rightarrow> (Break, emit s1 [Print ([0x0A, 0x0A] @ lit ''Goodbye!'')])
      | EndOfFile \<Rightarrow>
          (Continue, emit s1 (loop_handlers (Exc EOFError (lit ''EOF when reading a line''))))
      | Line raw \<Rightarrow>
          (let question = strip raw in
           if lower question \<in> set exit_keywords then
             (Break, emit s1 [Print (0x0A # lit ''Goodbye!'')])
           else if question = [] then (Continue, s1)
           else
             (let s2 = emit s1 [Print (0x0A # lit ''Searching Wikipedia and generating answer...''),
                                Ask question];
                  (res, c') = ask_question py_str net (api s2) question;
                  s3 = s2\<lparr>api := c'\<rparr>
              in case res of
                   Inr result \<Rightarrow> (Continue, emit s3 (print_result py_str result))
                 | Inl e \<Rightarrow> (Continue, emit s3 (loop_handlers e)))))"

text \<open>
  The loop over the inputs the console delivers. After \<^verbatim>\<open>break\<close> the function
  \<open>run\<close> returns, and so does \<open>main\<close>: the process ends with code 0. When the inputs
  are used up the session has written its prompt and waits.
\<close>

fun cli_loop :: "(pyval \<Rightarrow> pystr) \<Rightarrow> network \<Rightarrow> console_input list \<Rightarrow> session \<Rightarrow> exit_status \<times> session" where
  "cli_loop py_str net [] s = (AwaitingInput, emit s [Prompt (0x0A # lit ''Your question: '')])"
| "cli_loop py_str net (inp # inps) s =
     (case loop_body py_str net inp s of
        (Break, s') \<Rightarrow> (Exit 0, s')
      | (Continue, s') \<Rightarrow> cli_loop py_str net inps s')"

text \<open>What \<open>run\<close> prints for a health probe that returned.\<close>

definition health_report :: "(pyval \<Rightarrow> pystr) \<Rightarrow> api_health \<Rightarrow> event list" where
  "health_report py_str health =
     (if status health = PStr (lit ''healthy'')
      then [Print ([0x2713] @ lit '' Connected to server'')]
      else [Print ([0x26A0] @ lit '' Server status: '' @ format_val py_str (status health))]
           @ (if truthy (message health)
              then [Print (lit ''  '' @ format_val py_str (message health))]
              else []))
     @ [Print []]"

text \<open>
  \<^verbatim>\<open>RAGCLI.run\<close>: banner, health probe, then the loop. \<^verbatim>\<open>sys.exit(1)\<close> ends the
  process with code 1 from inside the first \<^verbatim>\<open>except\<close> clause.
\<close>

definition run :: "(pyval \<Rightarrow> pystr) \<Rightarrow> network \<Rightarrow> api_client \<Rightarrow> console_input list \<Rightarrow> exit_status \<times> session" where
  "run py_str net c inps =
     (let tr = print_banner @ [Print (lit ''Checking server connection...'')];
          (h, c') = check_health net c
      in case h of
           Inr health \<Rightarrow>
             cli_loop py_str net inps \<lparr>api = c', trace = tr @ health_report py_str health\<rparr>
         | Inl e \<Rightarrow>
             if isinstance e ServerNotReachableError then
               (Exit 1,
                \<lparr>api = c',
                 trace = tr @
                   [Print ([0x0A, 0x274C] @ lit '' Error: '' @ exc_str e),
                    Print (0x0A # lit ''Please start the server first:''),
                    Print (lit ''  nix run .#server''),
                    Print (0x0A # lit ''Or set AISHE_API_URL to point to a running server.'')]\<rparr>)
             else
               cli_loop py_str net inps
                 \<lparr>api = c',
                  trace = tr @
                    [Print ([0x0A, 0x26A0] @ lit '' Warning: Could not check server health: ''
                              @ exc_str e),
                     Print (lit ''Continuing anyway...'' @ [0x0A])]\<rparr>)"

text \<open>
  \<^verbatim>\<open>main\<close>: \<^verbatim>\<open>RAGCLI()\<close> builds the client with no address argument and the default
  timeout of 120 seconds, then \<open>run\<close>. Neither \<open>main\<close> nor \<open>run\<close> enters the client
  as a context manager or calls \<open>close\<close>.
\<close>

definition main :: "(pyval \<Rightarrow> pystr) \<Rightarrow> network \<Rightarrow> pystr option \<Rightarrow> console_input list \<Rightarrow> exit_status \<times> session" where
  "main py_str net env_url inps = run py_str net (init None env_url 120) inps"

section \<open>The constraints of the data model (api\_models.py)\<close>

text \<open>
  The server's response models bound two numbers: \<^verbatim>\<open>Source.number\<close> is an integer
  with \<^verbatim>\<open>ge=1\<close>, and \<^verbatim>\<open>AnswerResponse.processing_time\<close> is a number with
  \<^verbatim>\<open>ge=0\<close>. The client module does not import these models.
\<close>

definition number_ge1 :: "pyval \<Rightarrow> bool" where
  "number_ge1 v = (case v of PInt i \<Rightarrow> 1 \<le> i | _ \<Rightarrow> False)"

definition time_ge0 :: "pyval \<Rightarrow> bool" where
  "time_ge0 v = (case v of PInt i \<Rightarrow> 0 \<le> i | PFloat x \<Rightarrow> 0 \<le> x | _ \<Rightarrow> False)"

text \<open>The two bounds, on an answer the client returned.\<close>

definition answer_constraints :: "api_answer \<Rightarrow> bool" where
  "answer_constraints a =
     (time_ge0 (processing_time a) \<and> list_all (\<lambda>s. number_ge1 (number s)) (sources a))"

text \<open>The same two bounds, on the parsed body of a response.\<close>

definition payload_constraints :: "pyval \<Rightarrow> bool" where
  "payload_constraints data =
     ((case subscript data (lit ''processing_time'') of
         Inr t \<Rightarrow> time_ge0 t
       | Inl e \<Rightarrow> False)
      \<and> (case subscript data (lit ''sources'') of
            Inr ss \<Rightarrow>
              (case py_iter ss of
                 Inr items \<Rightarrow>
                   list_all (\<lambda>item. case subscript item (lit ''number'') of
                                       Inr n \<Rightarrow> number_ge1 n
                                     | Inl e \<Rightarrow> False) items
               | Inl e \<Rightarrow> False)
          | Inl e \<Rightarrow> False))"

section \<open>Predicates for stating the claims about the session\<close>

text \<open>
  An input on which the loop body reaches \<^verbatim>\<open>break\<close>: the interrupt, or a line that
  is an exit keyword once stripped and lower-cased.
\<close>

definition ends_session :: "console_input \<Rightarrow> bool" where
  "ends_session inp =
     (case inp of
        KeyboardInterrupt \<Rightarrow> True
      | EndOfFile \<Rightarrow> False
      | Line raw \<Rightarrow> lower (strip raw) \<in> set exit_keywords)"

text \<open>The startup probe raises \<^verbatim>\<open>ServerNotReachableError\<close>.\<close>

definition startup_fatal :: "network \<Rightarrow> api_client \<Rightarrow> bool" where
  "startup_fatal net c =
     (case fst (check_health net c) of
        Inl e \<Rightarrow> isinstance e ServerNotReachableError
      | Inr h \<Rightarrow> False)"

text \<open>An event is a prompt for input.\<close>

definition is_prompt :: "event \<Rightarrow> bool" where
  "is_prompt ev = (case ev of Prompt p \<Rightarrow> True | _ \<Rightarrow> False)"

section \<open>Auxiliary facts\<close>

lemma strip_Nil: "strip [] = []"
  by (simp add: strip_def lstrip_def rstrip_def)



text \<open>An open client hands the request to the network and records it.\<close>

lemma send_open:
  "close_calls hc = 0 \<Longrightarrow>
   send net hc req = (net (length (sent hc)) req, hc\<lparr>sent := sent hc @ [req]\<rparr>)"
  by (simp add: send_def)

lemma ask_question_sends:
  assumes "strip question \<noteq> []" and "close_calls (client c) = 0"
  shows "ask_question py_str net c question =
           (ask_handlers py_str c
              (ask_attempt (net (length (sent (client c))) (ask_request c question))),
            c\<lparr>client := (client c)\<lparr>sent := sent (client c) @ [ask_request c question]\<rparr>\<rparr>)"
proof -
  from assms(1) have "question \<noteq> []" using strip_Nil by auto
  with assms show ?thesis by (simp add: ask_question_def send_open)
qed

lemma check_health_sends:
  assumes "close_calls (client c) = 0"
  shows "check_health net c =
           (health_handlers c
              (health_attempt (net (length (sent (client c))) (health_request c))),
            c\<lparr>client := (client c)\<lparr>sent := sent (client c) @ [health_request c]\<rparr>\<rparr>)"
  using assms by (simp add: check_health_def send_open)

lemma lit_append: "lit (a @ b) = lit a @ lit b"
  by (simp add: lit_def)

lemma sublist_in_tail: "sublist x (a @ b @ c @ x @ d)"
proof -
  have "a @ b @ c @ x @ d = (a @ b @ c) @ x @ d" by simp
  then show ?thesis by (metis sublist_appendI)
qed

lemma strip_hi: "strip (lit ''hi'') = lit ''hi''"
  by (simp add: strip_def lstrip_def rstrip_def lit_def isspace_def)

text \<open>A timeout is no connection error: the first \<^verbatim>\<open>except\<close> clause lets it pass.\<close>

lemma timeout_not_connect:
  "isinstance e TimeoutException \<Longrightarrow> \<not> isinstance e ConnectError"
  by (cases e) (auto simp: isinstance_def bases_def split: exc_class.splits)

lemma health_connect_error:
  assumes "isinstance e ConnectError"
  shows "health_handlers c (health_attempt (Inl e)) =
           Inl (Exc ServerNotReachableError
                  (lit ''Cannot connect to server at '' @ base_url c
                     @ lit ''. Make sure the server is running.''))"
  using assms by (simp add: health_handlers_def health_attempt_def)

lemma ask_connect_error:
  assumes "isinstance e ConnectError"
  shows "ask_handlers py_str c (ask_attempt (Inl e)) =
           Inl (Exc ServerNotReachableError
                  (lit ''Cannot connect to server at '' @ base_url c
                     @ lit ''. Make sure the server is running with: nix run .#server''))"
  using assms by (simp add: ask_handlers_def ask_attempt_def)

lemma health_timeout:
  assumes "isinstance e TimeoutException"
  shows "health_handlers c (health_attempt (Inl e)) =
           Inl (Exc ServerNotReachableError (lit ''Request to '' @ base_url c @ lit '' timed out.''))"
  using assms timeout_not_connect [OF assms]
  by (simp add: health_handlers_def health_attempt_def)

lemma ask_timeout:
  assumes "isinstance e TimeoutException"
  shows "ask_handlers py_str c (ask_attempt (Inl e)) =
           Inl (Exc ServerNotReachableError
                  (lit ''Request timed out after '' @ format_val py_str (PFloat (timeout c))
                     @ lit '' seconds. The question might be too complex.''))"
  using assms timeout_not_connect [OF assms]
  by (simp add: ask_handlers_def ask_attempt_def)

lemma running_phrase_health:
  "sublist (lit ''Make sure the server is running'')
     (lit ''Cannot connect to server at '' @ b @ lit ''. Make sure the server is running.'')"
proof -
  have "lit ''. Make sure the server is running.''
          = lit ''. '' @ lit ''Make sure the server is running'' @ lit ''.''"
    by (simp add: lit_def)
  then show ?thesis by (metis sublist_in_tail)
qed

lemma running_phrase_ask:
  "sublist (lit ''Make sure the server is running'')
     (lit ''Cannot connect to server at '' @ b
        @ lit ''. Make sure the server is running with: nix run .#server'')"
proof -
  have "lit ''. Make sure the server is running with: nix run .#server''
          = lit ''. '' @ lit ''Make sure the server is running'' @ lit '' with: nix run .#server''"
    by (simp add: lit_def)
  then show ?thesis by (metis sublist_in_tail)
qed

lemma complex_phrase:
  "sublist (lit ''The question might be too complex.'')
     (lit ''Request timed out after '' @ t @ lit '' seconds. The question might be too complex.'')"
proof -
  have "lit '' seconds. The question might be too complex.''
          = lit '' seconds. '' @ lit ''The question might be too complex.'' @ []"
    by (simp add: lit_def)
  then show ?thesis by (metis sublist_in_tail)
qed

lemma timeout_messages_differ:
  "lit ''Request timed out after '' @ t @ s \<noteq> lit ''Request to '' @ b @ s'"
  by (simp add: lit_def)

lemma ask_status_error:
  assumes "\<not> is_success r"
  shows "ask_handlers py_str c (ask_attempt (Inr r)) =
           Inl (Exc ServerError
                  (lit ''Server error ('' @ str_int (status_code r) @ lit ''): ''
                     @ error_detail py_str r))"
  using assms by (simp add: ask_handlers_def ask_attempt_def)

lemma error_detail_of_detail:
  assumes "json_body r = Inr (PDict kvs)" and "map_of kvs (lit ''detail'') = Some d"
  shows "error_detail py_str r = format_val py_str d"
  using assms by (simp add: error_detail_def py_get_def)

lemma error_detail_not_json:
  assumes "json_body r = Inl e"
  shows "error_detail py_str r = response_text r"
  using assms by (simp add: error_detail_def)

lemma convert_source_Inr:
  "convert_source item = Inr src \<longleftrightarrow>
     subscript item (lit ''number'') = Inr (number src)
     \<and> subscript item (lit ''title'') = Inr (title src)
     \<and> subscript item (lit ''url'') = Inr (source_url src)"
  by (cases src) (auto simp: convert_source_def split: sum.splits)

lemma convert_sources_Inr:
  "convert_sources items = Inr srcs \<longleftrightarrow> list_all2 (\<lambda>item src. convert_source item = Inr src) items srcs"
proof (induction items arbitrary: srcs)
  case Nil
  then show ?case by auto
next
  case (Cons item items)
  show ?case
  proof (cases srcs)
    case Nil
    then show ?thesis by (auto split: sum.splits)
  next
    case (Cons src rest)
    with Cons.IH [of rest] show ?thesis by (auto split: sum.splits)
  qed
qed

lemma convert_sources_total:
  assumes "\<forall>item\<in>set items. \<exists>src. convert_source item = Inr src"
  shows "\<exists>srcs. convert_sources items = Inr srcs"
  using assms
proof (induction items)
  case Nil
  then show ?case by simp
next
  case (Cons item items)
  then obtain src srcs where "convert_source item = Inr src" "convert_sources items = Inr srcs"
    by auto
  then show ?case by simp
qed

lemma ask_attempt_success:
  assumes "is_success r" and "json_body r = Inr data"
    and "subscript data (lit ''sources'') = Inr ss" and "py_iter ss = Inr items"
    and "convert_sources items = Inr srcs"
    and "subscript data (lit ''answer'') = Inr a"
    and "subscript data (lit ''processing_time'') = Inr t"
  shows "ask_attempt (Inr r) = Returned \<lparr>answer = a, sources = srcs, processing_time = t\<rparr>"
  using assms by (simp add: ask_attempt_def)

lemma ask_attempt_Returned:
  "ask_attempt (Inr r) = Returned ans \<longleftrightarrow>
     is_success r \<and>
     (\<exists>data ss items.
         json_body r = Inr data
         \<and> subscript data (lit ''sources'') = Inr ss
         \<and> py_iter ss = Inr items
         \<and> convert_sources items = Inr (sources ans)
         \<and> subscript data (lit ''answer'') = Inr (answer ans)
         \<and> subscript data (lit ''processing_time'') = Inr (processing_time ans))"
  by (cases ans) (auto simp: ask_attempt_def split: sum.splits)

lemma ask_handlers_Inr:
  "ask_handlers py_str c a = Inr ans \<longleftrightarrow> a = Returned ans"
  by (cases a) (auto simp: ask_handlers_def)

lemma numbers_carried_over:
  assumes "list_all2 (\<lambda>item src. convert_source item = Inr src) items srcs"
  shows "list_all (\<lambda>s. number_ge1 (number s)) srcs
         \<longleftrightarrow> list_all (\<lambda>item. case subscript item (lit ''number'') of
                                   Inr n \<Rightarrow> number_ge1 n
                                 | Inl e \<Rightarrow> False) items"
  using assms by (induction rule: list_all2_induct) (auto simp: convert_source_Inr)

lemma send_close_calls: "close_calls (snd (send net hc req)) = close_calls hc"
  by (simp add: send_def)

lemma check_health_close_calls:
  "close_calls (client (snd (check_health net c))) = close_calls (client c)"
  using send_close_calls [of net "client c" "health_request c"]
  by (auto simp: check_health_def split: prod.splits)

lemma ask_question_close_calls:
  "close_calls (client (snd (ask_question py_str net c q))) = close_calls (client c)"
  using send_close_calls [of net "client c" "ask_request c q"]
  by (auto simp: ask_question_def split: prod.splits)

lemma ask_question_result_close_calls:
  "ask_question py_str net c q = (res, c') \<Longrightarrow> close_calls (client c') = close_calls (client c)"
  using ask_question_close_calls [of py_str net c q] by simp

lemma loop_body_close_calls:
  "close_calls (client (api (snd (loop_body py_str net inp s)))) = close_calls (client (api s))"
  by (auto simp: loop_body_def emit_def Let_def dest: ask_question_result_close_calls
      split: console_input.splits prod.splits sum.splits)

lemma cli_loop_close_calls:
  "close_calls (client (api (snd (cli_loop py_str net inps s)))) = close_calls (client (api s))"
proof (induction inps arbitrary: s)
  case Nil
  then show ?case by (simp add: emit_def)
next
  case (Cons inp inps)
  obtain ctl s' where lb: "loop_body py_str net inp s = (ctl, s')" by (cases "loop_body py_str net inp s")
  with loop_body_close_calls [of py_str net inp s]
  have "close_calls (client (api s')) = close_calls (client (api s))" by simp
  with lb Cons.IH [of s'] show ?case by (cases ctl) simp_all
qed

lemma loop_body_control:
  "fst (loop_body py_str net inp s) = (if ends_session inp then Break else Continue)"
  by (auto simp: loop_body_def ends_session_def Let_def exit_keywords_def lower_def
      split: console_input.splits prod.splits sum.splits)

lemma cli_loop_exit:
  "fst (cli_loop py_str net inps s) = (if list_ex ends_session inps then Exit 0 else AwaitingInput)"
proof (induction inps arbitrary: s)
  case Nil
  then show ?case by simp
next
  case (Cons inp inps)
  obtain ctl s' where lb: "loop_body py_str net inp s = (ctl, s')" by (cases "loop_body py_str net inp s")
  with loop_body_control [of py_str net inp s]
  have "ctl = (if ends_session inp then Break else Continue)" by simp
  with lb Cons.IH [of s'] show ?case by simp
qed

lemma run_close_calls:
  "close_calls (client (api (snd (run py_str net c inps)))) = close_calls (client c)"
  using check_health_close_calls [of net c]
  by (auto simp: run_def Let_def cli_loop_close_calls split: prod.splits sum.splits)

lemma run_exit:
  "fst (run py_str net c inps) =
     (if startup_fatal net c then Exit 1
      else if list_ex ends_session inps then Exit 0 else AwaitingInput)"
  by (auto simp: run_def startup_fatal_def Let_def cli_loop_exit split: prod.splits sum.splits)


lemma loop_body_trace:
  "\<exists>evs. trace (snd (loop_body py_str net inp s))
           = trace s @ Prompt (0x0A # lit ''Your question: '') # evs"
  by (auto simp: loop_body_def emit_def Let_def
      split: console_input.splits prod.splits sum.splits)

lemma cli_loop_prompts_first:
  "\<exists>rest. trace (snd (cli_loop py_str net inps s))
            = trace s @ Prompt (0x0A # lit ''Your question: '') # rest"
proof (cases inps)
  case Nil
  then show ?thesis by (simp add: emit_def)
next
  case (Cons inp inps')
  obtain ctl s' where lb: "loop_body py_str net inp s = (ctl, s')"
    by (cases "loop_body py_str net inp s")
  with loop_body_trace [of py_str net inp s] obtain evs where
    s': "trace s' = trace s @ Prompt (0x0A # lit ''Your question: '') # evs" by auto
  have ext: "\<exists>more. trace (snd (cli_loop py_str net inps' t)) = trace t @ more" for t
  proof (induction inps' arbitrary: t)
    case Nil
    then show ?case by (simp add: emit_def)
  next
    case (Cons i more_inps)
    obtain ctl' t' where lb': "loop_body py_str net i t = (ctl', t')"
      by (cases "loop_body py_str net i t")
    with loop_body_trace [of py_str net i t] obtain evs' where
      "trace t' = trace t @ Prompt (0x0A # lit ''Your question: '') # evs'" by auto
    with lb' Cons.IH [of t'] show ?case by (cases ctl') auto
  qed
  from ext [of s'] s' lb Cons show ?thesis by (cases ctl) auto
qed

lemma run_fatal:
  assumes "fst (check_health net c) = Inl e" and "isinstance e ServerNotReachableError"
  shows "run py_str net c inps =
           (Exit 1,
            \<lparr>api = snd (check_health net c),
             trace = print_banner @ [Print (lit ''Checking server connection...'')] @
               [Print ([0x0A, 0x274C] @ lit '' Error: '' @ exc_str e),
                Print (0x0A # lit ''Please start the server first:''),
                Print (lit ''  nix run .#server''),
                Print (0x0A # lit ''Or set AISHE_API_URL to point to a running server.'')]\<rparr>)"
  using assms by (cases "check_health net c") (simp add: run_def Let_def)

lemma run_degraded:
  assumes "fst (check_health net c) = Inl e" and "\<not> isinstance e ServerNotReachableError"
  shows "run py_str net c inps =
           cli_loop py_str net inps
             \<lparr>api = snd (check_health net c),
              trace = print_banner @ [Print (lit ''Checking server connection...'')] @
                [Print ([0x0A, 0x26A0] @ lit '' Warning: Could not check server health: '' @ exc_str e),
                 Print (lit ''Continuing anyway...'' @ [0x0A])]\<rparr>"
  using assms by (cases "check_health net c") (simp add: run_def Let_def)

lemma health_other_error:
  assumes "\<not> isinstance e ConnectError" and "\<not> isinstance e TimeoutException"
  shows "health_handlers c (health_attempt (Inl e)) =
           Inl (Exc APIClientError (lit ''Unexpected error: '' @ exc_str e))"
  using assms by (simp add: health_handlers_def health_attempt_def)

lemma init_open: "close_calls (client (init a b t)) = 0"
  by (simp add: init_def)

lemma probe_refused:
  "fst (check_health (\<lambda>k req. Inl (Exc ConnectError (lit ''refused''))) (init None None 120))
     = Inl (Exc ServerNotReachableError
              (lit ''Cannot connect to server at '' @ base_url (init None None 120)
                 @ lit ''. Make sure the server is running.''))"
  by (simp add: check_health_sends [OF init_open] health_connect_error isinstance_def)

lemma probe_broken:
  "fst (check_health (\<lambda>k req. Inl (Exc OtherException (lit ''boom''))) (init None None 120))
     = Inl (Exc APIClientError (lit ''Unexpected error: '' @ lit ''boom''))"
  by (simp add: check_health_sends [OF init_open] health_other_error isinstance_def bases_def)

lemma probe_healthy:
  "fst (check_health
          (\<lambda>k req. Inr \<lparr>status_code = 200, response_text = [],
             json_body = Inr (PDict [(lit ''status'', PStr (lit ''healthy'')),
                                     (lit ''ollama_accessible'', PBool True)])\<rparr>)
          (init None None 120))
     = Inr \<lparr>status = PStr (lit ''healthy''), ollama_accessible = PBool True, message = PNone\<rparr>"
  by (simp add: check_health_sends [OF init_open] health_handlers_def health_attempt_def
      is_success_def subscript_def py_get_def lit_def)

lemma quit_ends_session: "ends_session (Line (lit ''quit''))"
  by (simp add: ends_session_def strip_def lstrip_def rstrip_def lower_def lower_cp_def
      exit_keywords_def lit_def isspace_def)








section \<open>The claims\<close>

text \<open>
  C1. A question that is empty, or empty once stripped, makes \<open>ask_question\<close> raise
  the \<^verbatim>\<open>ValueError\<close> of its own check (the invalid-input kind), whatever the network
  would do: the client is returned as it was, so no request was issued, and the
  exception is none of the client's server or fallback classes.
\<close>

theorem ask_question_blank_invalid_input:
  assumes "strip question = []"
  shows "ask_question py_str net c question
           = (Inl (Exc ValueError (lit ''Question cannot be empty'')), c)
         \<and> sent (client (snd (ask_question py_str net c question))) = sent (client c)
         \<and> \<not> isinstance (Exc ValueError (lit ''Question cannot be empty'')) APIClientError
         \<and> \<not> isinstance (Exc ValueError (lit ''Question cannot be empty'')) ServerNotReachableError
         \<and> \<not> isinstance (Exc ValueError (lit ''Question cannot be empty'')) ServerError"
  using assms by (simp add: ask_question_def isinstance_def bases_def)

theorem ask_question_blank_invalid_input_witness:
  "strip (lit ''   '') = []
   \<and> ask_question (\<lambda>v. []) (\<lambda>k req. Inl (Exc ConnectError [])) (init None None 120) (lit ''   '')
       = (Inl (Exc ValueError (lit ''Question cannot be empty'')), init None None 120)"
proof -
  have blank: "strip (lit ''   '') = []"
    by (simp add: strip_def lstrip_def rstrip_def lit_def isspace_def)
  from ask_question_blank_invalid_input [OF blank] blank show ?thesis by blast
qed

text \<open>
  C8. When the library raises \<^verbatim>\<open>ConnectError\<close> for the request, \<open>check_health\<close> and
  \<open>ask_question\<close> both raise \<^verbatim>\<open>ServerNotReachableError\<close>, and its message holds the
  client's base address (the configured address, as \<open>init\<close> stores it) and the advice
  to make sure the server is running.
\<close>

theorem connect_failure_server_not_reachable:
  assumes "close_calls (client c) = 0" and "isinstance e ConnectError"
  shows "(net (length (sent (client c))) (health_request c) = Inl e \<longrightarrow>
            (\<exists>msg. fst (check_health net c) = Inl (Exc ServerNotReachableError msg)
                \<and> sublist (base_url c) msg
                \<and> sublist (lit ''Make sure the server is running'') msg))
       \<and> (strip question \<noteq> [] \<and> net (length (sent (client c))) (ask_request c question) = Inl e \<longrightarrow>
            (\<exists>msg. fst (ask_question py_str net c question) = Inl (Exc ServerNotReachableError msg)
                \<and> sublist (base_url c) msg
                \<and> sublist (lit ''Make sure the server is running'') msg))"
proof (intro conjI impI)
  assume "net (length (sent (client c))) (health_request c) = Inl e"
  then have "fst (check_health net c) =
      Inl (Exc ServerNotReachableError
             (lit ''Cannot connect to server at '' @ base_url c
                @ lit ''. Make sure the server is running.''))"
    by (simp add: check_health_sends [OF assms(1)] health_connect_error [OF assms(2)])
  then show "\<exists>msg. fst (check_health net c) = Inl (Exc ServerNotReachableError msg)
                \<and> sublist (base_url c) msg
                \<and> sublist (lit ''Make sure the server is running'') msg"
    using running_phrase_health by auto
next
  assume a: "strip question \<noteq> [] \<and> net (length (sent (client c))) (ask_request c question) = Inl e"
  then have "fst (ask_question py_str net c question) =
      Inl (Exc ServerNotReachableError
             (lit ''Cannot connect to server at '' @ base_url c
                @ lit ''. Make sure the server is running with: nix run .#server''))"
    using assms(1) by (simp add: ask_question_sends ask_connect_error [OF assms(2)])
  then show "\<exists>msg. fst (ask_question py_str net c question) = Inl (Exc ServerNotReachableError msg)
                \<and> sublist (base_url c) msg
                \<and> sublist (lit ''Make sure the server is running'') msg"
    using running_phrase_ask by auto
qed

theorem connect_failure_server_not_reachable_witness:
  "(\<exists>msg. fst (check_health (\<lambda>k req. Inl (Exc ConnectError (lit ''refused''))) (init None None 120))
             = Inl (Exc ServerNotReachableError msg)
         \<and> sublist (lit ''http://localhost:8000'') msg)
   \<and> (\<exists>msg. fst (ask_question (\<lambda>v. []) (\<lambda>k req. Inl (Exc ConnectError (lit ''refused'')))
                    (init None None 120) (lit ''hi''))
             = Inl (Exc ServerNotReachableError msg)
         \<and> sublist (lit ''http://localhost:8000'') msg)"
proof -
  have open0: "close_calls (client (init None None 120)) = 0"
    by (simp add: init_def)
  have cls: "isinstance (Exc ConnectError (lit ''refused'')) ConnectError"
    by (simp add: isinstance_def)
  have url: "base_url (init None None 120) = lit ''http://localhost:8000''"
    by (simp add: init_def rstrip_slash_def lit_def)
  have q: "strip (lit ''hi'') \<noteq> []"
    by (simp add: strip_hi) (simp add: lit_def)
  from connect_failure_server_not_reachable [OF open0 cls,
      of "\<lambda>k req. Inl (Exc ConnectError (lit ''refused''))" "lit ''hi''" "\<lambda>v. []"] q url
  show ?thesis by auto
qed

text \<open>
  C3, as the code has it. When the library raises a timeout for the request, both
  operations raise \<^verbatim>\<open>ServerNotReachableError\<close>. The message of \<open>check_health\<close> is
  ``Request to'', the base address, ``timed out.'': it names the address and not the
  timeout. The message of \<open>ask_question\<close> holds the text of the timeout value and the
  sentence that the question might be too complex, and it differs from the message of
  \<open>check_health\<close>.
\<close>

theorem timeout_server_not_reachable:
  assumes "close_calls (client c) = 0" and "isinstance e TimeoutException"
  shows "(net (length (sent (client c))) (health_request c) = Inl e \<longrightarrow>
            fst (check_health net c)
              = Inl (Exc ServerNotReachableError
                       (lit ''Request to '' @ base_url c @ lit '' timed out.'')))
       \<and> (strip question \<noteq> [] \<and> net (length (sent (client c))) (ask_request c question) = Inl e \<longrightarrow>
            (\<exists>msg. fst (ask_question py_str net c question) = Inl (Exc ServerNotReachableError msg)
                \<and> sublist (format_val py_str (PFloat (timeout c))) msg
                \<and> sublist (lit ''The question might be too complex.'') msg
                \<and> msg \<noteq> lit ''Request to '' @ base_url c @ lit '' timed out.''))"
proof (intro conjI impI)
  assume "net (length (sent (client c))) (health_request c) = Inl e"
  then show "fst (check_health net c)
      = Inl (Exc ServerNotReachableError (lit ''Request to '' @ base_url c @ lit '' timed out.''))"
    by (simp add: check_health_sends [OF assms(1)] health_timeout [OF assms(2)])
next
  assume a: "strip question \<noteq> [] \<and> net (length (sent (client c))) (ask_request c question) = Inl e"
  then have "fst (ask_question py_str net c question) =
      Inl (Exc ServerNotReachableError
             (lit ''Request timed out after '' @ format_val py_str (PFloat (timeout c))
                @ lit '' seconds. The question might be too complex.''))"
    using assms(1) by (simp add: ask_question_sends ask_timeout [OF assms(2)])
  then show "\<exists>msg. fst (ask_question py_str net c question) = Inl (Exc ServerNotReachableError msg)
                \<and> sublist (format_val py_str (PFloat (timeout c))) msg
                \<and> sublist (lit ''The question might be too complex.'') msg
                \<and> msg \<noteq> lit ''Request to '' @ base_url c @ lit '' timed out.''"
    using complex_phrase timeout_messages_differ by auto
qed

theorem timeout_server_not_reachable_witness:
  "fst (check_health (\<lambda>k req. Inl (Exc ReadTimeout (lit ''timed out''))) (init None None 120))
     = Inl (Exc ServerNotReachableError (lit ''Request to http://localhost:8000 timed out.''))
   \<and> (\<exists>msg. fst (ask_question (\<lambda>v. lit ''120.0'') (\<lambda>k req. Inl (Exc ReadTimeout (lit ''timed out'')))
                    (init None None 120) (lit ''hi''))
             = Inl (Exc ServerNotReachableError msg)
         \<and> sublist (lit ''120.0'') msg
         \<and> sublist (lit ''The question might be too complex.'') msg
         \<and> msg \<noteq> lit ''Request to http://localhost:8000 timed out.'')"
proof -
  have open0: "close_calls (client (init None None 120)) = 0"
    by (simp add: init_def)
  have cls: "isinstance (Exc ReadTimeout (lit ''timed out'')) TimeoutException"
    by (simp add: isinstance_def bases_def)
  have url: "base_url (init None None 120) = lit ''http://localhost:8000''"
    by (simp add: init_def rstrip_slash_def lit_def)
  have tmo: "format_val (\<lambda>v. lit ''120.0'') (PFloat (timeout (init None None 120))) = lit ''120.0''"
    by (simp add: format_val_def)
  have q: "strip (lit ''hi'') \<noteq> []"
    by (simp add: strip_hi) (simp add: lit_def)
  have whole: "lit ''Request to '' @ lit ''http://localhost:8000'' @ lit '' timed out.''
                 = lit ''Request to http://localhost:8000 timed out.''"
    by (simp add: lit_def)
  from timeout_server_not_reachable [OF open0 cls,
      of "\<lambda>k req. Inl (Exc ReadTimeout (lit ''timed out''))" "lit ''hi''" "\<lambda>v. lit ''120.0''"]
    q url tmo whole
  show ?thesis by auto
qed

text \<open>
  C3 as stated fails for the health probe: with the default address and the timeout of
  120 seconds its timeout message holds no ``120''.
\<close>

theorem health_timeout_message_counterexample:
  "fst (check_health (\<lambda>k req. Inl (Exc ReadTimeout (lit ''timed out''))) (init None None 120))
     = Inl (Exc ServerNotReachableError (lit ''Request to http://localhost:8000 timed out.''))
   \<and> \<not> sublist (lit ''120'') (lit ''Request to http://localhost:8000 timed out.'')"
proof -
  have open0: "close_calls (client (init None None 120)) = 0"
    by (simp add: init_def)
  have cls: "isinstance (Exc ReadTimeout (lit ''timed out'')) TimeoutException"
    by (simp add: isinstance_def bases_def)
  have url: "base_url (init None None 120) = lit ''http://localhost:8000''"
    by (simp add: init_def rstrip_slash_def lit_def)
  have whole: "lit ''Request to '' @ lit ''http://localhost:8000'' @ lit '' timed out.''
                 = lit ''Request to http://localhost:8000 timed out.''"
    by (simp add: lit_def)
  have "fst (check_health (\<lambda>k req. Inl (Exc ReadTimeout (lit ''timed out''))) (init None None 120))
     = Inl (Exc ServerNotReachableError (lit ''Request to http://localhost:8000 timed out.''))"
    by (simp add: check_health_sends [OF open0] health_timeout [OF cls] url whole)
  moreover have "\<not> sublist (lit ''120'') (lit ''Request to http://localhost:8000 timed out.'')"
    by code_simp
  ultimately show ?thesis by simp
qed

text \<open>
  C6. When the response to \<open>ask_question\<close> has a status outside 2xx, the operation
  raises \<^verbatim>\<open>ServerError\<close>; its message holds the decimal status code, the text of
  the \<^verbatim>\<open>detail\<close> value when the body parses to a JSON object that has one (a string
  detail is its own text), and the text of the body when the body does not parse.
\<close>

theorem server_error_message:
  assumes "close_calls (client c) = 0" and "strip question \<noteq> []"
    and "net (length (sent (client c))) (ask_request c question) = Inr r"
    and "\<not> is_success r"
  shows "\<exists>msg. fst (ask_question py_str net c question) = Inl (Exc ServerError msg)
           \<and> sublist (str_int (status_code r)) msg
           \<and> (\<forall>kvs d. json_body r = Inr (PDict kvs) \<and> map_of kvs (lit ''detail'') = Some d
                  \<longrightarrow> sublist (format_val py_str d) msg)
           \<and> (\<forall>e. json_body r = Inl e \<longrightarrow> sublist (response_text r) msg)"
proof -
  let ?msg = "lit ''Server error ('' @ str_int (status_code r) @ lit ''): '' @ error_detail py_str r"
  have res: "fst (ask_question py_str net c question) = Inl (Exc ServerError ?msg)"
    using assms by (simp add: ask_question_sends ask_status_error)
  have code: "sublist (str_int (status_code r)) ?msg"
    by (rule sublist_appendI)
  have tail: "sublist (error_detail py_str r) ?msg"
    by (metis append_Nil2 sublist_in_tail)
  have detail: "\<forall>kvs d. json_body r = Inr (PDict kvs) \<and> map_of kvs (lit ''detail'') = Some d
                  \<longrightarrow> sublist (format_val py_str d) ?msg"
    using tail by (auto simp: error_detail_of_detail)
  have raw: "\<forall>e. json_body r = Inl e \<longrightarrow> sublist (response_text r) ?msg"
    using tail by (auto simp: error_detail_not_json)
  from res code detail raw show ?thesis by blast
qed

theorem server_error_message_witness:
  "(\<exists>msg. fst (ask_question (\<lambda>v. [])
              (\<lambda>k req. Inr \<lparr>status_code = 404, response_text = lit ''{...}'',
                              json_body = Inr (PDict [(lit ''detail'', PStr (lit ''Not found''))])\<rparr>)
              (init None None 120) (lit ''hi'')) = Inl (Exc ServerError msg)
         \<and> sublist (lit ''404'') msg \<and> sublist (lit ''Not found'') msg)
   \<and> (\<exists>msg. fst (ask_question (\<lambda>v. [])
              (\<lambda>k req. Inr \<lparr>status_code = 502, response_text = lit ''Bad Gateway'',
                              json_body = Inl (Exc JSONDecodeError (lit ''Expecting value''))\<rparr>)
              (init None None 120) (lit ''hi'')) = Inl (Exc ServerError msg)
         \<and> sublist (lit ''502'') msg \<and> sublist (lit ''Bad Gateway'') msg)"
proof -
  have open0: "close_calls (client (init None None 120)) = 0"
    by (simp add: init_def)
  have q: "strip (lit ''hi'') \<noteq> []"
    by (simp add: strip_hi) (simp add: lit_def)
  have c404: "str_int 404 = lit ''404''" by code_simp
  have c502: "str_int 502 = lit ''502''" by code_simp
  let ?r1 = "\<lparr>status_code = 404, response_text = lit ''{...}'',
              json_body = Inr (PDict [(lit ''detail'', PStr (lit ''Not found''))])\<rparr>"
  let ?r2 = "\<lparr>status_code = 502, response_text = lit ''Bad Gateway'',
              json_body = Inl (Exc JSONDecodeError (lit ''Expecting value''))\<rparr>"
  have f1: "\<not> is_success ?r1" by (simp add: is_success_def)
  have f2: "\<not> is_success ?r2" by (simp add: is_success_def)
  have s1: "format_val (\<lambda>v. []) (PStr (lit ''Not found'')) = lit ''Not found''"
    by (simp add: format_val_def)
  from server_error_message [OF open0 q _ f1, of "\<lambda>k req. Inr ?r1" "\<lambda>v. []"] c404 s1
  have w1: "\<exists>msg. fst (ask_question (\<lambda>v. []) (\<lambda>k req. Inr ?r1) (init None None 120) (lit ''hi''))
                = Inl (Exc ServerError msg)
              \<and> sublist (lit ''404'') msg \<and> sublist (lit ''Not found'') msg"
    by fastforce
  from server_error_message [OF open0 q _ f2, of "\<lambda>k req. Inr ?r2" "\<lambda>v. []"] c502
  have w2: "\<exists>msg. fst (ask_question (\<lambda>v. []) (\<lambda>k req. Inr ?r2) (init None None 120) (lit ''hi''))
                = Inl (Exc ServerError msg)
              \<and> sublist (lit ''502'') msg \<and> sublist (lit ''Bad Gateway'') msg"
    by fastforce
  from w1 w2 show ?thesis by blast
qed

text \<open>
  C7. For a question that is not blank, the one request \<open>ask_question\<close> issues is the
  POST to the ask path whose JSON body is \<^verbatim>\<open>{"question": q}\<close> with \<open>q\<close> the stripped
  question. When the response is a success whose body is a JSON object with
  \<^verbatim>\<open>answer\<close>, \<^verbatim>\<open>processing_time\<close> and an array \<^verbatim>\<open>sources\<close> of objects that each
  have \<^verbatim>\<open>number\<close>, \<^verbatim>\<open>title\<close> and \<^verbatim>\<open>url\<close>, the operation returns an answer whose
  sources stand in the order received, each with the three values received.
\<close>

theorem ask_question_round_trip:
  assumes "close_calls (client c) = 0" and "strip question \<noteq> []"
  shows "sent (client (snd (ask_question py_str net c question)))
           = sent (client c)
             @ [\<lparr>http_method = POST, url = base_url c @ lit ''/api/v1/ask'',
                 json_payload = Some (PDict [(lit ''question'', PStr (strip question))])\<rparr>]
       \<and> (\<forall>r kvs items a t.
             net (length (sent (client c))) (ask_request c question) = Inr r \<and> is_success r
             \<and> json_body r = Inr (PDict kvs)
             \<and> map_of kvs (lit ''sources'') = Some (PList items)
             \<and> map_of kvs (lit ''answer'') = Some a
             \<and> map_of kvs (lit ''processing_time'') = Some t
             \<and> (\<forall>item\<in>set items. \<exists>n ti u.
                    subscript item (lit ''number'') = Inr n
                    \<and> subscript item (lit ''title'') = Inr ti
                    \<and> subscript item (lit ''url'') = Inr u)
             \<longrightarrow> (\<exists>ans. fst (ask_question py_str net c question) = Inr ans
                    \<and> answer ans = a \<and> processing_time ans = t
                    \<and> list_all2 (\<lambda>item src.
                          subscript item (lit ''number'') = Inr (number src)
                          \<and> subscript item (lit ''title'') = Inr (title src)
                          \<and> subscript item (lit ''url'') = Inr (source_url src))
                        items (sources ans)))"
proof (intro conjI allI impI)
  show "sent (client (snd (ask_question py_str net c question)))
           = sent (client c)
             @ [\<lparr>http_method = POST, url = base_url c @ lit ''/api/v1/ask'',
                 json_payload = Some (PDict [(lit ''question'', PStr (strip question))])\<rparr>]"
    using assms by (simp add: ask_question_sends ask_request_def)
next
  fix r kvs items a t
  assume h: "net (length (sent (client c))) (ask_request c question) = Inr r \<and> is_success r
             \<and> json_body r = Inr (PDict kvs)
             \<and> map_of kvs (lit ''sources'') = Some (PList items)
             \<and> map_of kvs (lit ''answer'') = Some a
             \<and> map_of kvs (lit ''processing_time'') = Some t
             \<and> (\<forall>item\<in>set items. \<exists>n ti u.
                    subscript item (lit ''number'') = Inr n
                    \<and> subscript item (lit ''title'') = Inr ti
                    \<and> subscript item (lit ''url'') = Inr u)"
  have "\<forall>item\<in>set items. \<exists>src. convert_source item = Inr src"
  proof
    fix item assume "item \<in> set items"
    with h obtain n ti u where
      "subscript item (lit ''number'') = Inr n"
      "subscript item (lit ''title'') = Inr ti"
      "subscript item (lit ''url'') = Inr u" by blast
    then have "convert_source item = Inr \<lparr>number = n, title = ti, source_url = u\<rparr>"
      by (simp add: convert_source_Inr)
    then show "\<exists>src. convert_source item = Inr src" ..
  qed
  then obtain srcs where srcs: "convert_sources items = Inr srcs"
    using convert_sources_total by blast
  have att: "ask_attempt (Inr r) = Returned \<lparr>answer = a, sources = srcs, processing_time = t\<rparr>"
    using h srcs by (intro ask_attempt_success [where data = "PDict kvs" and ss = "PList items"])
      (simp_all add: subscript_def py_iter_def)
  have "fst (ask_question py_str net c question)
          = Inr \<lparr>answer = a, sources = srcs, processing_time = t\<rparr>"
    using assms h by (simp add: ask_question_sends att ask_handlers_def)
  moreover have "list_all2 (\<lambda>item src.
                          subscript item (lit ''number'') = Inr (number src)
                          \<and> subscript item (lit ''title'') = Inr (title src)
                          \<and> subscript item (lit ''url'') = Inr (source_url src)) items srcs"
    using srcs by (simp add: convert_sources_Inr convert_source_Inr)
  ultimately show "\<exists>ans. fst (ask_question py_str net c question) = Inr ans
                    \<and> answer ans = a \<and> processing_time ans = t
                    \<and> list_all2 (\<lambda>item src.
                          subscript item (lit ''number'') = Inr (number src)
                          \<and> subscript item (lit ''title'') = Inr (title src)
                          \<and> subscript item (lit ''url'') = Inr (source_url src))
                        items (sources ans)"
    by simp
qed


theorem ask_question_round_trip_witness:
  "sent (client (snd (ask_question (\<lambda>v. [])
      (\<lambda>k req. Inr \<lparr>status_code = 200, response_text = [],
         json_body = Inr (PDict
           [(lit ''answer'', PStr (lit ''Paris'')),
            (lit ''sources'', PList [PDict [(lit ''number'', PInt 1),
                                            (lit ''title'', PStr (lit ''France'')),
                                            (lit ''url'', PStr (lit ''http://x''))]]),
            (lit ''processing_time'', PFloat 0.5)])\<rparr>)
      (init None None 120) (lit '' hi ''))))
     = [\<lparr>http_method = POST, url = lit ''http://localhost:8000'' @ lit ''/api/v1/ask'',
         json_payload = Some (PDict [(lit ''question'', PStr (lit ''hi''))])\<rparr>]
   \<and> (\<exists>ans. fst (ask_question (\<lambda>v. [])
      (\<lambda>k req. Inr \<lparr>status_code = 200, response_text = [],
         json_body = Inr (PDict
           [(lit ''answer'', PStr (lit ''Paris'')),
            (lit ''sources'', PList [PDict [(lit ''number'', PInt 1),
                                            (lit ''title'', PStr (lit ''France'')),
                                            (lit ''url'', PStr (lit ''http://x''))]]),
            (lit ''processing_time'', PFloat 0.5)])\<rparr>)
      (init None None 120) (lit '' hi '')) = Inr ans
        \<and> answer ans = PStr (lit ''Paris'') \<and> processing_time ans = PFloat 0.5
        \<and> map number (sources ans) = [PInt 1]
        \<and> map title (sources ans) = [PStr (lit ''France'')]
        \<and> map source_url (sources ans) = [PStr (lit ''http://x'')])"
proof -
  let ?item = "PDict [(lit ''number'', PInt 1), (lit ''title'', PStr (lit ''France'')),
                      (lit ''url'', PStr (lit ''http://x''))]"
  let ?kvs = "[(lit ''answer'', PStr (lit ''Paris'')), (lit ''sources'', PList [?item]),
               (lit ''processing_time'', PFloat 0.5)]"
  let ?r = "\<lparr>status_code = 200, response_text = [], json_body = Inr (PDict ?kvs)\<rparr>"
  let ?c = "init None None 120"
  have open0: "close_calls (client ?c) = 0"
    by (simp add: init_def)
  have url: "base_url ?c = lit ''http://localhost:8000''"
    by (simp add: init_def rstrip_slash_def lit_def)
  have sq: "strip (lit '' hi '') = lit ''hi''"
    by (simp add: strip_def lstrip_def rstrip_def lit_def isspace_def)
  then have q: "strip (lit '' hi '') \<noteq> []"
    by (simp add: lit_def)
  have ok: "is_success ?r" by (simp add: is_success_def)
  have k1: "map_of ?kvs (lit ''sources'') = Some (PList [?item])" by (simp add: lit_def)
  have k2: "map_of ?kvs (lit ''answer'') = Some (PStr (lit ''Paris''))" by (simp add: lit_def)
  have k3: "map_of ?kvs (lit ''processing_time'') = Some (PFloat 0.5)" by (simp add: lit_def)
  have i1: "subscript ?item (lit ''number'') = Inr (PInt 1)"
    by (simp add: subscript_def lit_def)
  have i2: "subscript ?item (lit ''title'') = Inr (PStr (lit ''France''))"
    by (simp add: subscript_def lit_def)
  have i3: "subscript ?item (lit ''url'') = Inr (PStr (lit ''http://x''))"
    by (simp add: subscript_def lit_def)
  note rt = ask_question_round_trip [OF open0 q, of "\<lambda>v. []" "\<lambda>k req. Inr ?r"]
  from rt have sent1: "sent (client (snd (ask_question (\<lambda>v. []) (\<lambda>k req. Inr ?r) ?c (lit '' hi ''))))
     = [\<lparr>http_method = POST, url = lit ''http://localhost:8000'' @ lit ''/api/v1/ask'',
         json_payload = Some (PDict [(lit ''question'', PStr (lit ''hi''))])\<rparr>]"
    by (simp add: url sq) (simp add: init_def)
  from rt have "\<exists>ans. fst (ask_question (\<lambda>v. []) (\<lambda>k req. Inr ?r) ?c (lit '' hi '')) = Inr ans
        \<and> answer ans = PStr (lit ''Paris'') \<and> processing_time ans = PFloat 0.5
        \<and> list_all2 (\<lambda>item src.
               subscript item (lit ''number'') = Inr (number src)
               \<and> subscript item (lit ''title'') = Inr (title src)
               \<and> subscript item (lit ''url'') = Inr (source_url src)) [?item] (sources ans)"
    using ok k1 k2 k3 i1 i2 i3 by fastforce
  then obtain ans where ans: "fst (ask_question (\<lambda>v. []) (\<lambda>k req. Inr ?r) ?c (lit '' hi '')) = Inr ans"
      "answer ans = PStr (lit ''Paris'')" "processing_time ans = PFloat 0.5"
      "list_all2 (\<lambda>item src.
               subscript item (lit ''number'') = Inr (number src)
               \<and> subscript item (lit ''title'') = Inr (title src)
               \<and> subscript item (lit ''url'') = Inr (source_url src)) [?item] (sources ans)"
    by blast
  from ans(4) obtain src where src: "sources ans = [src]"
      "subscript ?item (lit ''number'') = Inr (number src)"
      "subscript ?item (lit ''title'') = Inr (title src)"
      "subscript ?item (lit ''url'') = Inr (source_url src)"
    by (auto simp: list_all2_Cons1)
  from src i1 i2 i3 have "map number (sources ans) = [PInt 1]"
      "map title (sources ans) = [PStr (lit ''France'')]"
      "map source_url (sources ans) = [PStr (lit ''http://x'')]"
    by simp_all
  then have "\<exists>a. fst (ask_question (\<lambda>v. []) (\<lambda>k req. Inr ?r) ?c (lit '' hi '')) = Inr a
        \<and> answer a = PStr (lit ''Paris'') \<and> processing_time a = PFloat 0.5
        \<and> map number (sources a) = [PInt 1]
        \<and> map title (sources a) = [PStr (lit ''France'')]
        \<and> map source_url (sources a) = [PStr (lit ''http://x'')]"
    using ans(1,2,3) by (intro exI [of _ ans]) simp
  with sent1 show ?thesis by (intro conjI)
qed

text \<open>
  C9, as the code has it. The client checks no value of a response: the answer it
  returns holds \<^verbatim>\<open>processing_time\<close> as received, and one source for each element
  of the received \<^verbatim>\<open>sources\<close>, in order, each with the number received. So a
  returned answer meets the two bounds of the data model exactly when the body of the
  response does.
\<close>

theorem answer_constraints_from_payload:
  assumes "close_calls (client c) = 0" and "strip question \<noteq> []"
    and "net (length (sent (client c))) (ask_request c question) = Inr r"
    and "fst (ask_question py_str net c question) = Inr ans"
  shows "\<exists>data ss items. json_body r = Inr data
           \<and> subscript data (lit ''processing_time'') = Inr (processing_time ans)
           \<and> subscript data (lit ''sources'') = Inr ss
           \<and> py_iter ss = Inr items
           \<and> list_all2 (\<lambda>item src. subscript item (lit ''number'') = Inr (number src))
                 items (sources ans)
           \<and> (answer_constraints ans \<longleftrightarrow> payload_constraints data)"
proof -
  from assms have "ask_attempt (Inr r) = Returned ans"
    by (simp add: ask_question_sends ask_handlers_Inr)
  then obtain data ss items where d:
      "json_body r = Inr data"
      "subscript data (lit ''sources'') = Inr ss"
      "py_iter ss = Inr items"
      "convert_sources items = Inr (sources ans)"
      "subscript data (lit ''processing_time'') = Inr (processing_time ans)"
    by (auto simp: ask_attempt_Returned)
  from d(4) have conv: "list_all2 (\<lambda>item src. convert_source item = Inr src) items (sources ans)"
    by (simp add: convert_sources_Inr)
  then have numbers: "list_all2 (\<lambda>item src. subscript item (lit ''number'') = Inr (number src))
                        items (sources ans)"
    by (rule list_all2_mono) (simp add: convert_source_Inr)
  from conv have "answer_constraints ans \<longleftrightarrow> payload_constraints data"
    using d by (simp add: answer_constraints_def payload_constraints_def numbers_carried_over)
  with d(1,2,3,5) numbers show ?thesis by blast
qed

theorem answer_constraints_from_payload_witness:
  "\<exists>ans. fst (ask_question (\<lambda>v. [])
      (\<lambda>k req. Inr \<lparr>status_code = 200, response_text = [],
         json_body = Inr (PDict
           [(lit ''answer'', PStr (lit ''Paris'')),
            (lit ''sources'', PList [PDict [(lit ''number'', PInt 2),
                                            (lit ''title'', PStr (lit ''Europe'')),
                                            (lit ''url'', PStr (lit ''http://y''))],
                                     PDict [(lit ''number'', PInt 1),
                                            (lit ''title'', PStr (lit ''France'')),
                                            (lit ''url'', PStr (lit ''http://x''))]]),
            (lit ''processing_time'', PFloat 0.5)])\<rparr>)
      (init None None 120) (lit ''hi'')) = Inr ans
     \<and> processing_time ans = PFloat 0.5
     \<and> map number (sources ans) = [PInt 2, PInt 1]
     \<and> answer_constraints ans"
proof -
  let ?item2 = "PDict [(lit ''number'', PInt 2), (lit ''title'', PStr (lit ''Europe'')),
                       (lit ''url'', PStr (lit ''http://y''))]"
  let ?item1 = "PDict [(lit ''number'', PInt 1), (lit ''title'', PStr (lit ''France'')),
                       (lit ''url'', PStr (lit ''http://x''))]"
  let ?data = "PDict [(lit ''answer'', PStr (lit ''Paris'')),
                      (lit ''sources'', PList [?item2, ?item1]),
                      (lit ''processing_time'', PFloat 0.5)]"
  let ?r = "\<lparr>status_code = 200, response_text = [], json_body = Inr ?data\<rparr>"
  let ?c = "init None None 120"
  let ?net = "\<lambda>(k::nat) (req::request). (Inr ?r :: py_exception + response)"
  have open0: "close_calls (client ?c) = 0"
    by (simp add: init_def)
  have q: "strip (lit ''hi'') \<noteq> []"
    by (simp add: strip_hi) (simp add: lit_def)
  have ok: "is_success ?r" by (simp add: is_success_def)
  have k1: "subscript ?data (lit ''sources'') = Inr (PList [?item2, ?item1])"
    by (simp add: subscript_def lit_def)
  have k2: "subscript ?data (lit ''answer'') = Inr (PStr (lit ''Paris''))"
    by (simp add: subscript_def lit_def)
  have k3: "subscript ?data (lit ''processing_time'') = Inr (PFloat 0.5)"
    by (simp add: subscript_def lit_def)
  have it: "py_iter (PList [?item2, ?item1]) = Inr [?item2, ?item1]" by (simp add: py_iter_def)
  have n2: "subscript ?item2 (lit ''number'') = Inr (PInt 2)"
    by (simp add: subscript_def lit_def)
  have n1: "subscript ?item1 (lit ''number'') = Inr (PInt 1)"
    by (simp add: subscript_def lit_def)
  have cs2: "convert_source ?item2
              = Inr \<lparr>number = PInt 2, title = PStr (lit ''Europe''),
                     source_url = PStr (lit ''http://y'')\<rparr>"
    by (simp add: convert_source_def subscript_def lit_def)
  have cs1: "convert_source ?item1
              = Inr \<lparr>number = PInt 1, title = PStr (lit ''France''),
                     source_url = PStr (lit ''http://x'')\<rparr>"
    by (simp add: convert_source_def subscript_def lit_def)
  have "\<exists>srcs. convert_sources [?item2, ?item1] = Inr srcs"
    by (simp add: cs2 cs1)
  then obtain srcs where srcs: "convert_sources [?item2, ?item1] = Inr srcs" ..
  let ?ans = "\<lparr>answer = PStr (lit ''Paris''), sources = srcs, processing_time = PFloat 0.5\<rparr>"
  have "ask_attempt (Inr ?r) = Returned ?ans"
    by (rule ask_attempt_success [OF ok _ k1 it srcs k2 k3]) simp
  then have res: "fst (ask_question (\<lambda>v. []) ?net ?c (lit ''hi'')) = Inr ?ans"
    by (simp add: ask_question_sends [OF q open0] ask_handlers_Inr)
  have pay: "payload_constraints ?data"
    unfolding payload_constraints_def k1 k3
    by (simp add: it n2 n1 time_ge0_def number_ge1_def)
  from answer_constraints_from_payload [OF open0 q _ res, of ?r]
  obtain data ss items where got:
      "json_body ?r = Inr data"
      "subscript data (lit ''sources'') = Inr ss"
      "py_iter ss = Inr items"
      "list_all2 (\<lambda>item src. subscript item (lit ''number'') = Inr (number src))
         items (sources ?ans)"
      "answer_constraints ?ans \<longleftrightarrow> payload_constraints data"
    by auto
  from got(1) have data: "data = ?data" by simp
  with got(2) k1 have "ss = PList [?item2, ?item1]" by simp
  with got(3) it have items: "items = [?item2, ?item1]" by simp
  from got(4) have "list_all2 (\<lambda>item src. subscript item (lit ''number'') = Inr (number src))
                      [?item2, ?item1] srcs"
    unfolding items by simp
  then have nums: "map number srcs = [PInt 2, PInt 1]"
    by (auto simp: list_all2_Cons1 n2 n1)
  from got(5) pay have "answer_constraints ?ans" unfolding data by simp
  with res nums show ?thesis by (intro exI [of _ ?ans]) simp
qed

text \<open>
  C9 as stated fails: the client accepts a success response whose processing time is
  -1 and whose only source has number 0, and returns both values.
\<close>

theorem answer_constraints_counterexample:
  "fst (ask_question (\<lambda>v. [])
      (\<lambda>k req. Inr \<lparr>status_code = 200, response_text = [],
         json_body = Inr (PDict
           [(lit ''answer'', PStr (lit ''a'')),
            (lit ''sources'', PList [PDict [(lit ''number'', PInt 0),
                                            (lit ''title'', PStr (lit ''t'')),
                                            (lit ''url'', PStr (lit ''u''))]]),
            (lit ''processing_time'', PFloat (- 1))])\<rparr>)
      (init None None 120) (lit ''hi''))
     = Inr \<lparr>answer = PStr (lit ''a''),
            sources = [\<lparr>number = PInt 0, title = PStr (lit ''t''), source_url = PStr (lit ''u'')\<rparr>],
            processing_time = PFloat (- 1)\<rparr>
   \<and> \<not> time_ge0 (PFloat (- 1)) \<and> \<not> number_ge1 (PInt 0)"
proof -
  let ?item = "PDict [(lit ''number'', PInt 0), (lit ''title'', PStr (lit ''t'')),
                      (lit ''url'', PStr (lit ''u''))]"
  let ?data = "PDict [(lit ''answer'', PStr (lit ''a'')), (lit ''sources'', PList [?item]),
               (lit ''processing_time'', PFloat (- 1))]"
  let ?r = "\<lparr>status_code = 200, response_text = [], json_body = Inr ?data\<rparr>"
  let ?c = "init None None 120"
  let ?ans = "\<lparr>answer = PStr (lit ''a''),
            sources = [\<lparr>number = PInt 0, title = PStr (lit ''t''), source_url = PStr (lit ''u'')\<rparr>],
            processing_time = PFloat (- 1)\<rparr>"
  have open0: "close_calls (client ?c) = 0"
    by (simp add: init_def)
  have q: "strip (lit ''hi'') \<noteq> []"
    by (simp add: strip_hi) (simp add: lit_def)
  have ok: "is_success ?r" by (simp add: is_success_def)
  have k1: "subscript ?data (lit ''sources'') = Inr (PList [?item])"
    by (simp add: subscript_def lit_def)
  have k2: "subscript ?data (lit ''answer'') = Inr (PStr (lit ''a''))"
    by (simp add: subscript_def lit_def)
  have k3: "subscript ?data (lit ''processing_time'') = Inr (PFloat (- 1))"
    by (simp add: subscript_def lit_def)
  have it: "py_iter (PList [?item]) = Inr [?item]" by (simp add: py_iter_def)
  have cs: "convert_source ?item
              = Inr \<lparr>number = PInt 0, title = PStr (lit ''t''), source_url = PStr (lit ''u'')\<rparr>"
    by (simp add: convert_source_def subscript_def lit_def)
  have "ask_attempt (Inr ?r) = Returned ?ans"
    by (rule ask_attempt_success [OF ok _ k1 it _ k2 k3]) (simp_all add: cs)
  then have "fst (ask_question (\<lambda>v. []) (\<lambda>k req. Inr ?r) ?c (lit ''hi'')) = Inr ?ans"
    by (simp add: ask_question_sends [OF q open0] ask_handlers_Inr)
  moreover have "\<not> time_ge0 (PFloat (- 1))" by (simp add: time_ge0_def)
  moreover have "\<not> number_ge1 (PInt 0)" by (simp add: number_ge1_def)
  ultimately show ?thesis by (intro conjI)
qed

text \<open>
  C5. When the startup probe raises \<^verbatim>\<open>ServerNotReachableError\<close>, \<open>run\<close> prints the
  error and the process exits with code 1; no prompt was written, whatever input
  waits. When the probe raises anything else, \<open>run\<close> does not exit with code 1: it
  prints the warning with the text of the exception, then ``Continuing anyway...'',
  and the next thing it does is write the prompt.
\<close>

theorem startup_probe_failure:
  assumes "fst (check_health net c) = Inl e"
  shows "(isinstance e ServerNotReachableError \<longrightarrow>
            fst (run py_str net c inps) = Exit 1
            \<and> Print ([0x0A, 0x274C] @ lit '' Error: '' @ exc_str e)
                 \<in> set (trace (snd (run py_str net c inps)))
            \<and> \<not> list_ex is_prompt (trace (snd (run py_str net c inps))))
       \<and> (\<not> isinstance e ServerNotReachableError \<longrightarrow>
            fst (run py_str net c inps) \<noteq> Exit 1
            \<and> (\<exists>rest. trace (snd (run py_str net c inps)) =
                  print_banner
                  @ [Print (lit ''Checking server connection...''),
                     Print ([0x0A, 0x26A0] @ lit '' Warning: Could not check server health: ''
                              @ exc_str e),
                     Print (lit ''Continuing anyway...'' @ [0x0A]),
                     Prompt (0x0A # lit ''Your question: '')]
                  @ rest))"
proof (intro conjI impI)
  assume fatal: "isinstance e ServerNotReachableError"
  note r = run_fatal [OF assms fatal, of py_str inps]
  show "fst (run py_str net c inps) = Exit 1" by (simp add: r)
  show "Print ([0x0A, 0x274C] @ lit '' Error: '' @ exc_str e)
          \<in> set (trace (snd (run py_str net c inps)))" by (simp add: r)
  show "\<not> list_ex is_prompt (trace (snd (run py_str net c inps)))"
    by (simp add: r print_banner_def is_prompt_def)
next
  assume ok: "\<not> isinstance e ServerNotReachableError"
  note r = run_degraded [OF assms ok, of py_str inps]
  show "fst (run py_str net c inps) \<noteq> Exit 1" by (simp add: r cli_loop_exit)
  from cli_loop_prompts_first [of py_str net inps
      "\<lparr>api = snd (check_health net c),
        trace = print_banner @ [Print (lit ''Checking server connection...'')] @
          [Print ([0x0A, 0x26A0] @ lit '' Warning: Could not check server health: '' @ exc_str e),
           Print (lit ''Continuing anyway...'' @ [0x0A])]\<rparr>"]
  show "\<exists>rest. trace (snd (run py_str net c inps)) =
                  print_banner
                  @ [Print (lit ''Checking server connection...''),
                     Print ([0x0A, 0x26A0] @ lit '' Warning: Could not check server health: ''
                              @ exc_str e),
                     Print (lit ''Continuing anyway...'' @ [0x0A]),
                     Prompt (0x0A # lit ''Your question: '')]
                  @ rest"
    by (simp add: r)
qed


theorem startup_probe_failure_witness:
  "fst (run (\<lambda>v. []) (\<lambda>k req. Inl (Exc ConnectError (lit ''refused''))) (init None None 120)
          [Line (lit ''hi'')]) = Exit 1
   \<and> \<not> list_ex is_prompt
         (trace (snd (run (\<lambda>v. []) (\<lambda>k req. Inl (Exc ConnectError (lit ''refused'')))
                        (init None None 120) [Line (lit ''hi'')])))
   \<and> fst (run (\<lambda>v. []) (\<lambda>k req. Inl (Exc OtherException (lit ''boom''))) (init None None 120) [])
       \<noteq> Exit 1
   \<and> (\<exists>rest. trace (snd (run (\<lambda>v. []) (\<lambda>k req. Inl (Exc OtherException (lit ''boom'')))
                            (init None None 120) [])) =
          print_banner
          @ [Print (lit ''Checking server connection...''),
             Print ([0x0A, 0x26A0] @ lit '' Warning: Could not check server health: ''
                      @ lit ''Unexpected error: '' @ lit ''boom''),
             Print (lit ''Continuing anyway...'' @ [0x0A]),
             Prompt (0x0A # lit ''Your question: '')]
          @ rest)"
proof -
  have fatal: "isinstance (Exc ServerNotReachableError m) ServerNotReachableError" for m
    by (simp add: isinstance_def)
  have mild: "\<not> isinstance (Exc APIClientError m) ServerNotReachableError" for m
    by (simp add: isinstance_def bases_def)
  from startup_probe_failure [OF probe_refused, of "\<lambda>v. []" "[Line (lit ''hi'')]"] fatal
  have a: "fst (run (\<lambda>v. []) (\<lambda>k req. Inl (Exc ConnectError (lit ''refused''))) (init None None 120)
          [Line (lit ''hi'')]) = Exit 1
   \<and> \<not> list_ex is_prompt
         (trace (snd (run (\<lambda>v. []) (\<lambda>k req. Inl (Exc ConnectError (lit ''refused'')))
                        (init None None 120) [Line (lit ''hi'')])))"
    by blast
  from startup_probe_failure [OF probe_broken, of "\<lambda>v. []" "[]"] mild
  have b: "fst (run (\<lambda>v. []) (\<lambda>k req. Inl (Exc OtherException (lit ''boom''))) (init None None 120) [])
       \<noteq> Exit 1
   \<and> (\<exists>rest. trace (snd (run (\<lambda>v. []) (\<lambda>k req. Inl (Exc OtherException (lit ''boom'')))
                            (init None None 120) [])) =
          print_banner
          @ [Print (lit ''Checking server connection...''),
             Print ([0x0A, 0x26A0] @ lit '' Warning: Could not check server health: ''
                      @ lit ''Unexpected error: '' @ lit ''boom''),
             Print (lit ''Continuing anyway...'' @ [0x0A]),
             Prompt (0x0A # lit ''Your question: '')]
          @ rest)"
    by simp
  from a b show ?thesis by (intro conjI) blast+
qed

text \<open>
  C4, as the code has it. \<open>main\<close> and \<open>run\<close> never call \<open>close\<close>: however the
  session ends, the client's connection was released zero times by the program. The
  process exits with code 1 when the startup probe finds the server unreachable, and
  otherwise with code 0 as soon as one input is an exit keyword or the interrupt; with
  no such input the session waits at the prompt.
\<close>

theorem session_exit_without_release:
  "close_calls (client (api (snd (main py_str net env_url inps)))) = 0
   \<and> fst (main py_str net env_url inps) =
       (if startup_fatal net (init None env_url 120) then Exit 1
        else if list_ex ends_session inps then Exit 0 else AwaitingInput)"
  by (simp add: main_def run_close_calls run_exit init_open)

theorem session_exit_without_release_witness:
  "close_calls (client (api (snd (main (\<lambda>v. [])
       (\<lambda>k req. Inl (Exc ConnectError (lit ''refused''))) None [Line (lit ''quit'')])))) = 0
   \<and> fst (main (\<lambda>v. []) (\<lambda>k req. Inl (Exc ConnectError (lit ''refused''))) None
            [Line (lit ''quit'')]) = Exit 1
   \<and> close_calls (client (api (snd (main (\<lambda>v. [])
       (\<lambda>k req. Inl (Exc OtherException (lit ''boom''))) None [EndOfFile, KeyboardInterrupt])))) = 0
   \<and> fst (main (\<lambda>v. []) (\<lambda>k req. Inl (Exc OtherException (lit ''boom''))) None
            [EndOfFile, KeyboardInterrupt]) = Exit 0"
proof -
  have f1: "startup_fatal (\<lambda>k req. Inl (Exc ConnectError (lit ''refused''))) (init None None 120)"
    by (simp add: startup_fatal_def probe_refused isinstance_def)
  have f2: "\<not> startup_fatal (\<lambda>k req. Inl (Exc OtherException (lit ''boom''))) (init None None 120)"
    by (simp add: startup_fatal_def probe_broken isinstance_def bases_def)
  have e2: "list_ex ends_session [EndOfFile, KeyboardInterrupt]"
    by (simp add: ends_session_def)
  from session_exit_without_release
         [of "\<lambda>v. []" "\<lambda>k req. Inl (Exc ConnectError (lit ''refused''))" None "[Line (lit ''quit'')]"]
       session_exit_without_release
         [of "\<lambda>v. []" "\<lambda>k req. Inl (Exc OtherException (lit ''boom''))" None
             "[EndOfFile, KeyboardInterrupt]"]
       f1 f2 e2
  show ?thesis by simp
qed

text \<open>
  C4 as stated fails: with a healthy server and the input ``quit'' the process exits
  with code 0, and \<open>close\<close> was called zero times, not once.
\<close>

theorem quit_releases_nothing_counterexample:
  "fst (main (\<lambda>v. [])
          (\<lambda>k req. Inr \<lparr>status_code = 200, response_text = [],
             json_body = Inr (PDict [(lit ''status'', PStr (lit ''healthy'')),
                                     (lit ''ollama_accessible'', PBool True)])\<rparr>)
          None [Line (lit ''quit'')]) = Exit 0
   \<and> close_calls (client (api (snd (main (\<lambda>v. [])
          (\<lambda>k req. Inr \<lparr>status_code = 200, response_text = [],
             json_body = Inr (PDict [(lit ''status'', PStr (lit ''healthy'')),
                                     (lit ''ollama_accessible'', PBool True)])\<rparr>)
          None [Line (lit ''quit'')])))) = 0"
proof -
  have "\<not> startup_fatal
          (\<lambda>k req. Inr \<lparr>status_code = 200, response_text = [],
             json_body = Inr (PDict [(lit ''status'', PStr (lit ''healthy'')),
                                     (lit ''ollama_accessible'', PBool True)])\<rparr>)
          (init None None 120)"
    by (simp add: startup_fatal_def probe_healthy)
  then show ?thesis
    by (simp add: main_def run_exit run_close_calls init_open quit_ends_session)
qed



text \<open>
  C2, at the input where the code departs from it. A success response whose body is
  not JSON makes \<open>json()\<close> raise \<^verbatim>\<open>JSONDecodeError\<close>, a \<^verbatim>\<open>ValueError\<close>: the clause
  \<^verbatim>\<open>except ValueError: raise e\<close> of \<open>ask_question\<close> lets it out as it is, where the
  claim (and \<open>check_health\<close>, on the same response) gives the client's own
  \<^verbatim>\<open>APIClientError\<close> with the description.
\<close>

theorem malformed_json_escapes_ask_question:
  "fst (ask_question (\<lambda>v. [])
          (\<lambda>k req. Inr \<lparr>status_code = 200, response_text = lit ''not json'',
             json_body = Inl (Exc JSONDecodeError (lit ''Expecting value''))\<rparr>)
          (init None None 120) (lit ''hi''))
     = Inl (Exc JSONDecodeError (lit ''Expecting value''))
   \<and> \<not> isinstance (Exc JSONDecodeError (lit ''Expecting value'')) APIClientError
   \<and> isinstance (Exc JSONDecodeError (lit ''Expecting value'')) ValueError
   \<and> fst (check_health
          (\<lambda>k req. Inr \<lparr>status_code = 200, response_text = lit ''not json'',
             json_body = Inl (Exc JSONDecodeError (lit ''Expecting value''))\<rparr>)
          (init None None 120))
     = Inl (Exc APIClientError (lit ''Unexpected error: '' @ lit ''Expecting value''))"
proof -
  have q: "strip (lit ''hi'') \<noteq> []"
    by (simp add: strip_hi) (simp add: lit_def)
  have a: "fst (ask_question (\<lambda>v. [])
          (\<lambda>k req. Inr \<lparr>status_code = 200, response_text = lit ''not json'',
             json_body = Inl (Exc JSONDecodeError (lit ''Expecting value''))\<rparr>)
          (init None None 120) (lit ''hi''))
     = Inl (Exc JSONDecodeError (lit ''Expecting value''))"
    by (simp add: ask_question_sends [OF q init_open] ask_handlers_def ask_attempt_def
        is_success_def isinstance_def bases_def)
  have b: "fst (check_health
          (\<lambda>k req. Inr \<lparr>status_code = 200, response_text = lit ''not json'',
             json_body = Inl (Exc JSONDecodeError (lit ''Expecting value''))\<rparr>)
          (init None None 120))
     = Inl (Exc APIClientError (lit ''Unexpected error: '' @ lit ''Expecting value''))"
    by (simp add: check_health_sends [OF init_open] health_handlers_def health_attempt_def
        is_success_def isinstance_def bases_def)
  from a b show ?thesis by (simp add: isinstance_def bases_def)
qed

end
